theory Spec2Isabelle
  imports Main
begin

section \<open>JavaScript values\<close>

text \<open>
  The values that flow through the gateway client: arguments of the typed operations,
  option bags, and the JSON bodies of upstream responses. \<open>Num\<close> stands for an
  integer-valued number in the safe range (whose \<open>toString\<close> is its plain decimal
  form); fractional numbers are outside the model. An object is listed with each key once.
\<close>

datatype jsval =
    Undefined
  | Null
  | Bool bool
  | Num int
  | Str string
  | Arr "jsval list"
  | Obj "(string \<times> jsval) list"

text \<open>What a rejected promise or a \<open>throw\<close> carries.\<close>

datatype js_error =
    Error string          \<comment> \<open>\<open>new Error(message)\<close>\<close>
  | TypeError             \<comment> \<open>a property read or method call on \<open>null\<close>/\<open>undefined\<close>, \<open>Object.keys\<close> of them\<close>
  | FetchError string     \<comment> \<open>\<open>fetch\<close> rejected: the transport failed\<close>
  | InvalidJson           \<comment> \<open>\<open>response.json()\<close> rejected: the body is not JSON\<close>

text \<open>\<open>if (v)\<close>, \<open>!v\<close>, \<open>a || b\<close>, \<open>a && b\<close> all go through ToBoolean.\<close>

fun truthy :: "jsval \<Rightarrow> bool" where
  "truthy Undefined = False"
| "truthy Null = False"
| "truthy (Bool b) = b"
| "truthy (Num n) = (n \<noteq> 0)"
| "truthy (Str s) = (s \<noteq> [])"
| "truthy (Arr xs) = True"
| "truthy (Obj kvs) = True"

fun nullish :: "jsval \<Rightarrow> bool" where
  "nullish Undefined = True"
| "nullish Null = True"
| "nullish v = False"

text \<open>\<open>a || b\<close>.\<close>

definition js_or :: "jsval \<Rightarrow> jsval \<Rightarrow> jsval" where
  "js_or a b = (if truthy a then a else b)"

subsection \<open>Decimal form of numbers\<close>

definition digit_char :: "nat \<Rightarrow> char" where
  "digit_char d = ''0123456789'' ! d"

function show_nat :: "nat \<Rightarrow> string" where
  "show_nat n = (if n < 10 then [digit_char n] else show_nat (n div 10) @ [digit_char (n mod 10)])"
  by pat_completeness auto
termination
  by (relation "measure (\<lambda>n. n)") auto

declare show_nat.simps [simp del]

definition show_int :: "int \<Rightarrow> string" where
  "show_int i = (if i < 0 then CHR ''-'' # show_nat (nat (- i)) else show_nat (nat i))"

subsection \<open>String conversion\<close>

fun join :: "string \<Rightarrow> string list \<Rightarrow> string" where
  "join sep [] = []"
| "join sep [s] = s"
| "join sep (s # t # ts) = s @ sep @ join sep (t # ts)"

text \<open>
  ToString, as applied by \<open>URLSearchParams.append\<close> and by template literals. An array
  joins its elements with commas, \<open>null\<close> and \<open>undefined\<close> elements printing as nothing.
\<close>

fun to_string :: "jsval \<Rightarrow> string" where
  "to_string Undefined = ''undefined''"
| "to_string Null = ''null''"
| "to_string (Bool b) = (if b then ''true'' else ''false'')"
| "to_string (Num n) = show_int n"
| "to_string (Str s) = s"
| "to_string (Arr xs) = join '','' (map (\<lambda>x. if nullish x then [] else to_string x) xs)"
| "to_string (Obj kvs) = ''[object Object]''"

text \<open>\<open>v.toString()\<close>: a method call, so it throws on \<open>null\<close> and \<open>undefined\<close>.\<close>

definition toString :: "jsval \<Rightarrow> js_error + string" where
  "toString v = (if nullish v then Inl TypeError else Inr (to_string v))"

text \<open>
  \<open>v.k\<close> for the property names this program reads from option bags and response bodies
  (\<open>tokens\<close>, \<open>protocols\<close>, \<open>dstAmount\<close>, \<open>slippage\<close>, ...), none of which a primitive or
  an array has: reading from \<open>null\<close>/\<open>undefined\<close> throws, a missing property is
  \<open>undefined\<close>.
\<close>

fun get_prop :: "jsval \<Rightarrow> string \<Rightarrow> js_error + jsval" where
  "get_prop Undefined k = Inl TypeError"
| "get_prop Null k = Inl TypeError"
| "get_prop (Obj kvs) k = Inr (case map_of kvs k of None \<Rightarrow> Undefined | Some v \<Rightarrow> v)"
| "get_prop v k = Inr Undefined"

text \<open>An \<open>options = {}\<close> parameter: always an object, so its reads cannot throw.\<close>

type_synonym options = "(string \<times> jsval) list"

definition opt :: "options \<Rightarrow> string \<Rightarrow> jsval" where
  "opt os k = (case map_of os k of None \<Rightarrow> Undefined | Some v \<Rightarrow> v)"

section \<open>The outside world: clock, timers, network\<close>

text \<open>
  An outbound HTTP request as it leaves the process: the URL split into its base and its
  query parameters (in order), the headers, and the clock value at dispatch.
\<close>

record url =
  href :: string
  searchParams :: "(string \<times> string) list"

record request =
  req_url :: url
  req_headers :: "(string \<times> string) list"
  sent_at :: int

text \<open>
  What \<open>await fetch(...)\<close> settles to: a rejection, or a response with its status, its
  body as text (\<open>response.text()\<close>) and its body as JSON (\<open>response.json()\<close>, \<open>None\<close> when
  the body does not parse).
\<close>

datatype fetch_outcome =
    Rejected string
  | Response nat string "jsval option"

text \<open>
  The world is the millisecond clock (\<open>Date.now()\<close>), the upstream's behaviour (the
  \<open>n\<close>-th request dispatched by the process settles after a latency with an outcome),
  and the log of requests dispatched so far. Synchronous code takes no time: the clock
  moves only while the process awaits a timer or a response.
\<close>

record world =
  clock :: int
  net :: "nat \<Rightarrow> nat \<times> fetch_outcome"
  sent :: "request list"

text \<open>\<open>await new Promise(resolve => setTimeout(resolve, d))\<close>: the timer fires at its deadline.\<close>

definition sleep :: "int \<Rightarrow> world \<Rightarrow> world" where
  "sleep d w = w\<lparr>clock := clock w + d\<rparr>"

text \<open>\<open>await fetch(url, {headers})\<close>: the request is dispatched now and settles after its latency.\<close>

definition fetch :: "url \<Rightarrow> (string \<times> string) list \<Rightarrow> world \<Rightarrow> fetch_outcome \<times> world" where
  "fetch u hs w =
     (let (lat, out) = net w (length (sent w))
      in (out, w\<lparr>clock := clock w + int lat,
                  sent := sent w @ [\<lparr>req_url = u, req_headers = hs, sent_at = clock w\<rparr>]\<rparr>))"

text \<open>\<open>response.ok\<close>.\<close>

definition response_ok :: "nat \<Rightarrow> bool" where
  "response_ok st \<longleftrightarrow> 200 \<le> st \<and> st \<le> 299"

text \<open>The message \<open>`HTTP ${response.status}: ${errorText}`\<close>.\<close>

definition http_message :: "nat \<Rightarrow> string \<Rightarrow> string" where
  "http_message st txt = ''HTTP '' @ show_nat st @ '': '' @ txt"

text \<open>
  The tail shared by every request path in the repository:
  \<open>if (!response.ok) throw new Error(...); return await response.json();\<close>
\<close>

definition settle :: "fetch_outcome \<Rightarrow> js_error + jsval" where
  "settle out =
     (case out of
        Rejected m \<Rightarrow> Inl (FetchError m)
      | Response st txt js \<Rightarrow>
          if \<not> response_ok st then Inl (Error (http_message st txt))
          else (case js of None \<Rightarrow> Inl InvalidJson | Some v \<Rightarrow> Inr v))"

section \<open>OneInchTradingApp: the paced, cached client\<close>

record client =
  apiKey :: string
  baseUrl :: string
  protocolsUrl :: string
  headers :: "(string \<times> string) list"
  lastRequest :: int
  requestInterval :: int
  tokensCache :: jsval
  protocolsCache :: jsval
  cacheExpiry :: int
  tokensCacheTime :: int
  protocolsCacheTime :: int

text \<open>The constructor (the wallet and provider fields play no part in the HTTP client).\<close>

definition OneInchTradingApp :: "string \<Rightarrow> client" where
  "OneInchTradingApp key =
     \<lparr>apiKey = key,
      baseUrl = ''https://api.1inch.dev/swap/v6.0/1'',
      protocolsUrl = ''https://api.1inch.dev/swap/v5.0/1'',
      headers = [(''Authorization'', ''Bearer '' @ key),
                 (''Accept'', ''application/json''),
                 (''Content-Type'', ''application/json'')],
      lastRequest = 0,
      requestInterval = 1000,
      tokensCache = Null,
      protocolsCache = Null,
      cacheExpiry = 300000,
      tokensCacheTime = 0,
      protocolsCacheTime = 0\<rparr>"

type_synonym 'a outcome = "(js_error + 'a) \<times> client \<times> world"

subsection \<open>rateLimitedRequest\<close>

text \<open>
  The pacing test at the head of \<open>rateLimitedRequest\<close>: how long the call sleeps, if at all,
  given the clock it read on entry.
\<close>

definition pacing_wait :: "client \<Rightarrow> int \<Rightarrow> int option" where
  "pacing_wait c now =
     (let timeSinceLastRequest = now - lastRequest c
      in if timeSinceLastRequest < requestInterval c
         then Some (requestInterval c - timeSinceLastRequest) else None)"

text \<open>
  One call run to completion with no other call on the same client in between. Every call
  site passes the URL only, so the \<open>options\<close> parameter is always \<open>{}\<close> and the headers are the
  client's own.
\<close>

definition rateLimitedRequest :: "url \<Rightarrow> client \<times> world \<Rightarrow> jsval outcome" where
  "rateLimitedRequest u s =
     (let (c, w) = s;
          w1 = (case pacing_wait c (clock w) of Some d \<Rightarrow> sleep d w | None \<Rightarrow> w);
          c1 = c\<lparr>lastRequest := clock w1\<rparr>;
          (out, w2) = fetch u (headers c1) w1
      in (settle out, c1, w2))"

subsection \<open>getSupportedTokens\<close>

text \<open>
  The timestamp stored with the cache is \<open>now\<close>, read on entry, before the request is
  paced and awaited. After the cache is written the log line calls \<open>Object.keys\<close> on the
  token list, which throws on \<open>null\<close>/\<open>undefined\<close>.
\<close>

definition getSupportedTokens :: "client \<times> world \<Rightarrow> jsval outcome" where
  "getSupportedTokens s =
     (let (c, w) = s; now = clock w
      in if truthy (tokensCache c) \<and> now - tokensCacheTime c < cacheExpiry c
         then (Inr (tokensCache c), c, w)
         else (case rateLimitedRequest \<lparr>href = baseUrl c @ ''/tokens'', searchParams = []\<rparr> (c, w) of
                 (Inl e, c1, w1) \<Rightarrow> (Inl e, c1, w1)
               | (Inr result, c1, w1) \<Rightarrow>
                   (case get_prop result ''tokens'' of
                      Inl e \<Rightarrow> (Inl e, c1, w1)
                    | Inr toks \<Rightarrow>
                        (let c2 = c1\<lparr>tokensCache := toks, tokensCacheTime := now\<rparr>
                         in if nullish toks then (Inl TypeError, c2, w1)
                            else (Inr toks, c2, w1)))))"

subsection \<open>getSupportedProtocols\<close>

definition mockProtocols :: jsval where
  "mockProtocols =
     Arr [Obj [(''id'', Str ''UNISWAP_V2''), (''title'', Str ''Uniswap V2'')],
          Obj [(''id'', Str ''UNISWAP_V3''), (''title'', Str ''Uniswap V3'')],
          Obj [(''id'', Str ''SUSHISWAP''), (''title'', Str ''SushiSwap'')],
          Obj [(''id'', Str ''CURVE''), (''title'', Str ''Curve'')],
          Obj [(''id'', Str ''BALANCER''), (''title'', Str ''Balancer'')]]"

text \<open>
  The \<open>for (const url of endpoints) { try { ... return ... } catch { log } }\<close> loop: the first
  endpoint that answers fills the cache and ends the loop (\<open>Some\<close>); anything thrown inside
  the \<open>try\<close> is logged and the next endpoint is tried; \<open>None\<close> when the list is used up.
\<close>

fun try_endpoints :: "int \<Rightarrow> string list \<Rightarrow> client \<times> world \<Rightarrow> jsval option \<times> client \<times> world" where
  "try_endpoints now [] s = (None, s)"
| "try_endpoints now (u # us) s =
     (case rateLimitedRequest \<lparr>href = u, searchParams = []\<rparr> s of
        (Inl e, s1) \<Rightarrow> try_endpoints now us s1
      | (Inr result, c1, w1) \<Rightarrow>
          (case get_prop result ''protocols'' of
             Inl e \<Rightarrow> try_endpoints now us (c1, w1)
           | Inr p \<Rightarrow>
               (let c2 = c1\<lparr>protocolsCache := js_or p result, protocolsCacheTime := now\<rparr>
                in if nullish (js_or p result) then try_endpoints now us (c2, w1)
                   else (Some (protocolsCache c2), c2, w1))))"

definition protocol_endpoints :: "client \<Rightarrow> string list" where
  "protocol_endpoints c =
     [protocolsUrl c @ ''/protocols'',
      ''https://api.1inch.dev/swap/v4.0/1/protocols'',
      ''https://api.1inch.dev/swap/v3.0/1/protocols'']"

definition getSupportedProtocols :: "client \<times> world \<Rightarrow> jsval outcome" where
  "getSupportedProtocols s =
     (let (c, w) = s; now = clock w
      in if truthy (protocolsCache c) \<and> now - protocolsCacheTime c < cacheExpiry c
         then (Inr (protocolsCache c), c, w)
         else (case try_endpoints now (protocol_endpoints c) (c, w) of
                 (Some v, c1, w1) \<Rightarrow> (Inr v, c1, w1)
               | (None, c1, w1) \<Rightarrow>
                   (Inr mockProtocols,
                    c1\<lparr>protocolsCache := mockProtocols, protocolsCacheTime := now\<rparr>, w1)))"

subsection \<open>getQuote, buildSwap, buildApproval\<close>

text \<open>\<open>if (v) url.searchParams.append(k, v)\<close>.\<close>

definition append_if :: "string \<Rightarrow> jsval \<Rightarrow> (string \<times> string) list" where
  "append_if k v = (if truthy v then [(k, to_string v)] else [])"

text \<open>
  The object \<open>getQuote\<close> returns: the own properties of the upstream result, then
  \<open>outputAmount\<close> and \<open>inputAmount\<close> on top. Its \<open>rate\<close> field is a floating-point quotient
  and is left out.
\<close>

record quote =
  upstream :: jsval
  outputAmount :: jsval
  inputAmount :: jsval

definition getQuote :: "string \<Rightarrow> string \<Rightarrow> jsval \<Rightarrow> options \<Rightarrow> client \<times> world \<Rightarrow> quote outcome" where
  "getQuote srcToken dstToken amount options s =
     (let (c, w) = s
      in case toString amount of
           Inl e \<Rightarrow> (Inl e, c, w)
         | Inr a \<Rightarrow>
             (let u = \<lparr>href = baseUrl c @ ''/quote'',
                       searchParams =
                         [(''src'', srcToken), (''dst'', dstToken), (''amount'', a)]
                         @ append_if ''slippage'' (opt options ''slippage'')
                         @ append_if ''protocols'' (opt options ''protocols'')
                         @ append_if ''fee'' (opt options ''fee'')\<rparr>
              in case rateLimitedRequest u (c, w) of
                   (Inl e, s1) \<Rightarrow> (Inl e, s1)
                 | (Inr result, s1) \<Rightarrow>
                     (case get_prop result ''dstAmount'' of
                        Inl e \<Rightarrow> (Inl e, s1)
                      | Inr d \<Rightarrow>
                          (Inr \<lparr>upstream = result, outputAmount = d, inputAmount = amount\<rparr>, s1))))"

record swap =
  swap_upstream :: jsval
  swap_outputAmount :: jsval

definition buildSwap ::
  "string \<Rightarrow> string \<Rightarrow> jsval \<Rightarrow> jsval \<Rightarrow> options \<Rightarrow> client \<times> world \<Rightarrow> swap outcome" where
  "buildSwap srcToken dstToken amount fromAddress options s =
     (let (c, w) = s
      in if \<not> truthy fromAddress
         then (Inl (Error ''From address is required for swap building''), c, w)
         else (case toString amount of
                 Inl e \<Rightarrow> (Inl e, c, w)
               | Inr a \<Rightarrow>
                   (let u = \<lparr>href = baseUrl c @ ''/swap'',
                             searchParams =
                               [(''src'', srcToken), (''dst'', dstToken), (''amount'', a),
                                (''from'', to_string fromAddress),
                                (''slippage'', to_string (js_or (opt options ''slippage'') (Num 1)))]
                               @ append_if ''receiver'' (opt options ''receiver'')
                               @ (if truthy (opt options ''allowPartialFill'')
                                  then [(''allowPartialFill'', ''true'')] else [])
                               @ append_if ''referrer'' (opt options ''referrer'')\<rparr>
                    in case rateLimitedRequest u (c, w) of
                         (Inl e, s1) \<Rightarrow> (Inl e, s1)
                       | (Inr result, s1) \<Rightarrow>
                           (case get_prop result ''dstAmount'' of
                              Inl e \<Rightarrow> (Inl e, s1)
                            | Inr d \<Rightarrow> (Inr \<lparr>swap_upstream = result, swap_outputAmount = d\<rparr>, s1)))))"

text \<open>
  \<open>buildApproval(tokenAddress, amount = null)\<close>: an argument that is not supplied arrives as
  \<open>undefined\<close> and takes the default.
\<close>

definition buildApproval :: "string \<Rightarrow> jsval \<Rightarrow> client \<times> world \<Rightarrow> jsval outcome" where
  "buildApproval tokenAddress amount_arg s =
     (let (c, w) = s;
          amount = (if amount_arg = Undefined then Null else amount_arg)
      in case (if truthy amount
               then (case toString amount of Inl e \<Rightarrow> Inl e | Inr a \<Rightarrow> Inr [(''amount'', a)])
               else Inr []) of
           Inl e \<Rightarrow> (Inl e, c, w)
         | Inr ps \<Rightarrow>
             rateLimitedRequest
               \<lparr>href = baseUrl c @ ''/approve/transaction'',
                searchParams = (''tokenAddress'', tokenAddress) # ps\<rparr> (c, w))"

subsection \<open>Calls entered in the same tick\<close>

text \<open>
  \<open>rateLimitedRequest\<close> has one suspension point before it dispatches: the \<open>await\<close> of the
  pacing timer. A call that need not wait runs through \<open>this.lastRequest = Date.now()\<close> and
  \<open>fetch(...)\<close> in the tick it was entered in; a call that must wait reads \<open>lastRequest\<close>,
  registers its timer and yields, and only writes \<open>lastRequest\<close> when the timer has fired.
  The state below is the client, the dispatch times so far, and the timer deadlines
  registered so far.
\<close>

definition enter_call :: "int \<Rightarrow> client \<times> int list \<times> int list \<Rightarrow> client \<times> int list \<times> int list" where
  "enter_call now st =
     (let (c, dispatched, timers) = st
      in case pacing_wait c now of
           None \<Rightarrow> (c\<lparr>lastRequest := now\<rparr>, dispatched @ [now], timers)
         | Some d \<Rightarrow> (c, dispatched, timers @ [now + d]))"

definition resume_call :: "int \<Rightarrow> client \<times> int list \<Rightarrow> client \<times> int list" where
  "resume_call t st = (let (c, dispatched) = st in (c\<lparr>lastRequest := t\<rparr>, dispatched @ [t]))"

text \<open>
  \<open>n\<close> calls entered one after the other in one tick at clock \<open>T\<close> (as by
  \<open>Promise.all\<close> over \<open>n\<close> \<open>getQuote\<close> calls), then the timers firing in deadline order,
  equal deadlines in the order they were registered. The result is the client and the
  dispatch times of the outbound requests, in dispatch order.
\<close>

definition concurrent_calls :: "client \<Rightarrow> int \<Rightarrow> nat \<Rightarrow> client \<times> int list" where
  "concurrent_calls c T n =
     (let (c1, dispatched, timers) = (enter_call T ^^ n) (c, [], [])
      in fold resume_call (sort timers) (c1, dispatched))"

section \<open>OneInchAPI: the unpaced client of the live test script\<close>

definition API_KEY :: string where
  "API_KEY = ''q5nnUnM1Cd2Asd75mpg5QFFPcIVWyXzM''"

definition HEADERS :: "(string \<times> string) list" where
  "HEADERS = [(''Authorization'', ''Bearer '' @ API_KEY),
              (''Accept'', ''application/json''),
              (''Content-Type'', ''application/json'')]"

definition AGGREGATION_URL :: string where
  "AGGREGATION_URL = ''https://api.1inch.dev/swap/v6.0/1''"

definition makeRequest :: "url \<Rightarrow> world \<Rightarrow> (js_error + jsval) \<times> world" where
  "makeRequest u w = (let (out, w1) = fetch u HEADERS w in (settle out, w1))"

definition OneInchAPI_getQuote ::
  "jsval \<Rightarrow> jsval \<Rightarrow> jsval \<Rightarrow> options \<Rightarrow> world \<Rightarrow> (js_error + jsval) \<times> world" where
  "OneInchAPI_getQuote src dst amount options w =
     makeRequest
       \<lparr>href = AGGREGATION_URL @ ''/quote'',
        searchParams =
          [(''src'', to_string src), (''dst'', to_string dst), (''amount'', to_string amount)]
          @ append_if ''slippage'' (opt options ''slippage'')\<rparr> w"

definition OneInchAPI_buildSwap ::
  "jsval \<Rightarrow> jsval \<Rightarrow> jsval \<Rightarrow> jsval \<Rightarrow> options \<Rightarrow> world \<Rightarrow> (js_error + jsval) \<times> world" where
  "OneInchAPI_buildSwap src dst amount from options w =
     makeRequest
       \<lparr>href = AGGREGATION_URL @ ''/swap'',
        searchParams =
          [(''src'', to_string src), (''dst'', to_string dst), (''amount'', to_string amount),
           (''from'', to_string from),
           (''slippage'', to_string (js_or (opt options ''slippage'') (Num 1)))]\<rparr> w"

section \<open>The backend proxy\<close>

definition BASE_URL :: string where
  "BASE_URL = ''https://api.1inch.dev/swap/v6.0/1''"

definition getHeaders :: "(string \<times> string) list" where
  "getHeaders = [(''Authorization'', ''Bearer '' @ API_KEY),
                 (''Accept'', ''application/json''),
                 (''Content-Type'', ''application/json'')]"

text \<open>
  What a route sends back: \<open>res.json(data)\<close> (status 200) or
  \<open>res.status(500).json({error: label, details: error.message})\<close>, with the header the
  \<open>cors({origin: 'http://localhost:3000', credentials: true})\<close> middleware puts on every
  response.
\<close>

datatype payload =
    Json jsval
  | Failure string js_error

record reply =
  status_code :: nat
  body :: payload
  allow_origin :: string
  allow_credentials :: bool

definition respond :: "string \<Rightarrow> js_error + jsval \<Rightarrow> reply" where
  "respond label r =
     (case r of
        Inr data \<Rightarrow>
          \<lparr>status_code = 200, body = Json data,
           allow_origin = ''http://localhost:3000'', allow_credentials = True\<rparr>
      | Inl e \<Rightarrow>
          \<lparr>status_code = 500, body = Failure label e,
           allow_origin = ''http://localhost:3000'', allow_credentials = True\<rparr>)"

text \<open>
  \<open>Object.entries(req.query).forEach(([key, value]) => { if (value) url.searchParams.append(key, value); })\<close>
  over the parsed query (a string per key, or an array of strings for a repeated key), in
  the order the keys were given.
\<close>

definition forward_query :: "options \<Rightarrow> (string \<times> string) list" where
  "forward_query query = concat (map (\<lambda>(key, v). append_if key v) query)"

text \<open>\<open>GET /api/tokens\<close>: the handler never looks at \<open>req\<close>.\<close>

definition api_tokens :: "options \<Rightarrow> world \<Rightarrow> reply \<times> world" where
  "api_tokens query w =
     (let (out, w1) = fetch \<lparr>href = BASE_URL @ ''/tokens'', searchParams = []\<rparr> getHeaders w;
          r = (case settle out of
                 Inl e \<Rightarrow> Inl e
               | Inr data \<Rightarrow>
                   (case get_prop data ''tokens'' of
                      Inl e \<Rightarrow> Inl e
                    | Inr toks \<Rightarrow> if nullish toks then Inl TypeError else Inr data))
      in (respond ''Failed to fetch tokens'' r, w1))"

text \<open>\<open>GET /api/quote\<close>; the success log line reads \<open>data.dstAmount\<close>.\<close>

definition api_quote :: "options \<Rightarrow> world \<Rightarrow> reply \<times> world" where
  "api_quote query w =
     (let (out, w1) = fetch \<lparr>href = BASE_URL @ ''/quote'', searchParams = forward_query query\<rparr>
                        getHeaders w;
          r = (case settle out of
                 Inl e \<Rightarrow> Inl e
               | Inr data \<Rightarrow>
                   (case get_prop data ''dstAmount'' of Inl e \<Rightarrow> Inl e | Inr d \<Rightarrow> Inr data))
      in (respond ''Failed to get quote'' r, w1))"

section \<open>Observing what was dispatched\<close>

text \<open>The requests that left the process between two states of the world, oldest first.\<close>

definition dispatched_between :: "world \<Rightarrow> world \<Rightarrow> request list" where
  "dispatched_between w w' = drop (length (sent w)) (sent w')"

text \<open>The world an operation leaves behind.\<close>

definition world_after :: "'a \<times> client \<times> world \<Rightarrow> world" where
  "world_after r = snd (snd r)"

definition client_after :: "'a \<times> client \<times> world \<Rightarrow> client" where
  "client_after r = fst (snd r)"

text \<open>When a call to \<open>rateLimitedRequest\<close> entered at clock \<open>now\<close> dispatches its request.\<close>

definition dispatch_time :: "client \<Rightarrow> int \<Rightarrow> int" where
  "dispatch_time c now = (case pacing_wait c now of Some d \<Rightarrow> now + d | None \<Rightarrow> now)"

section \<open>Scenarios\<close>

text \<open>A world starting at a given clock with nothing dispatched yet.\<close>

definition start_world :: "int \<Rightarrow> (nat \<Rightarrow> nat \<times> fetch_outcome) \<Rightarrow> world" where
  "start_world t upstream_behaviour = \<lparr>clock = t, net = upstream_behaviour, sent = []\<rparr>"

text \<open>An upstream that answers every request the same way.\<close>

definition always :: "nat \<Rightarrow> fetch_outcome \<Rightarrow> nat \<Rightarrow> nat \<times> fetch_outcome" where
  "always lat out n = (lat, out)"

text \<open>An upstream that answers the first request one way and every later one another way.\<close>

definition first_then ::
  "nat \<times> fetch_outcome \<Rightarrow> nat \<times> fetch_outcome \<Rightarrow> nat \<Rightarrow> nat \<times> fetch_outcome" where
  "first_then a b n = (if n = 0 then a else b)"

definition quote_body :: jsval where
  "quote_body = Obj [(''dstAmount'', Str ''3868650000'')]"

definition tokens_body :: jsval where
  "tokens_body =
     Obj [(''tokens'',
           Obj [(''0xa0b86991c6218b36c1d19d4a2e9eb0ce3606eb48'',
                 Obj [(''symbol'', Str ''USDC''), (''decimals'', Num 6)])])]"

text \<open>
  A first \<open>getSupportedTokens\<close> call on a new client, answered after two seconds with a
  one-token list.
\<close>

definition first_tokens_call :: "jsval outcome" where
  "first_tokens_call =
     getSupportedTokens
       (OneInchTradingApp ''k'',
        start_world 1700000000000 (always 2000 (Response 200 [] (Some tokens_body))))"

text \<open>A client whose two caches were filled long ago.\<close>

definition stale_client :: client where
  "stale_client =
     (OneInchTradingApp ''k'')
       \<lparr>tokensCache := Obj [(''0xT'', Obj [(''symbol'', Str ''OLD'')])],
        protocolsCache := Arr [Obj [(''id'', Str ''PMM''), (''title'', Str ''PMM'')]],
        tokensCacheTime := 1600000000000,
        protocolsCacheTime := 1600000000000\<rparr>"

section \<open>Basic facts\<close>

text \<open>
  A paced request always dispatches exactly one HTTP request, at its dispatch time, and
  settles to whatever the upstream answers to it.
\<close>

lemma rateLimitedRequest_unfold:
  "rateLimitedRequest u (c, w) =
     (settle (snd (net w (length (sent w)))),
      c\<lparr>lastRequest := dispatch_time c (clock w)\<rparr>,
      w\<lparr>clock := dispatch_time c (clock w) + int (fst (net w (length (sent w)))),
        sent := sent w @ [\<lparr>req_url = u, req_headers = headers c,
                           sent_at = dispatch_time c (clock w)\<rparr>]\<rparr>)"
  by (cases "net w (length (sent w))")
     (simp add: rateLimitedRequest_def fetch_def sleep_def dispatch_time_def Let_def
           split: option.split)

lemma dispatched_append [simp]:
  "dispatched_between w (w'\<lparr>sent := sent w @ rs\<rparr>) = rs"
  by (simp add: dispatched_between_def)

lemma dispatched_refl [simp]: "dispatched_between w w = []"
  by (simp add: dispatched_between_def)

lemma settle_not_ok:
  "\<not> response_ok st \<Longrightarrow> settle (Response st txt js) = Inl (Error (http_message st txt))"
  by (simp add: settle_def)

lemma settle_ok: "response_ok st \<Longrightarrow> settle (Response st txt (Some v)) = Inr v"
  by (simp add: settle_def)

lemmas eval_simps = show_nat.simps digit_char_def show_int_def http_message_def response_ok_def
  start_world_def always_def first_then_def OneInchTradingApp_def toString_def opt_def
  append_if_def js_or_def pacing_wait_def dispatch_time_def world_after_def client_after_def

section \<open>Error handling of the paced request path\<close>

text \<open>
  C3 (as amended). \<open>rateLimitedRequest\<close> has no retry and no backoff: whenever the upstream
  answers with a status outside 200..299 (429, 5xx and other 4xx alike), the call fails at once
  with \<open>Error "HTTP <status>: <body>"\<close> after exactly one outbound request, and \<open>getQuote\<close>
  passes that error on, again after exactly one request.
\<close>

theorem C3_no_retry:
  assumes "net w (length (sent w)) = (lat, Response st txt js)" and "\<not> response_ok st"
  shows "fst (rateLimitedRequest u (c, w)) = Inl (Error (http_message st txt))
       \<and> map req_url (dispatched_between w (world_after (rateLimitedRequest u (c, w)))) = [u]
       \<and> (\<not> nullish amount \<longrightarrow>
            fst (getQuote src dst amount os (c, w)) = Inl (Error (http_message st txt))
          \<and> length (dispatched_between w (world_after (getQuote src dst amount os (c, w)))) = 1)"
  using assms
  by (simp add: rateLimitedRequest_unfold world_after_def settle_not_ok getQuote_def toString_def)

text \<open>
  C3 as stated fails: with an upstream that answers 429 to the first request and 200 to any
  later one, \<open>getQuote\<close> returns the 429 error and only one request has left the process.
\<close>

theorem C3_counterexample:
  "fst (getQuote ''0xA'' ''0xB'' (Str ''1000000000000000000'') []
         (OneInchTradingApp ''k'',
          start_world 1700000000000
            (first_then (100, Response 429 ''Too Many Requests'' None)
                        (100, Response 200 [] (Some quote_body)))))
     = Inl (Error ''HTTP 429: Too Many Requests'')
   \<and> length (sent (world_after
        (getQuote ''0xA'' ''0xB'' (Str ''1000000000000000000'') []
           (OneInchTradingApp ''k'',
            start_world 1700000000000
              (first_then (100, Response 429 ''Too Many Requests'' None)
                          (100, Response 200 [] (Some quote_body))))))) = 1"
  by (simp add: getQuote_def rateLimitedRequest_unfold settle_def eval_simps)

text \<open>The amended C3 at a 503 answer.\<close>

theorem C3_witness:
  "fst (rateLimitedRequest \<lparr>href = ''https://api.1inch.dev/swap/v6.0/1/tokens'', searchParams = []\<rparr>
         (OneInchTradingApp ''k'', start_world 1700000000000 (always 100 (Response 503 ''busy'' None))))
     = Inl (Error ''HTTP 503: busy'')"
  using C3_no_retry [of "start_world 1700000000000 (always 100 (Response 503 ''busy'' None))"
                        100 503 "''busy''" None
                        "\<lparr>href = ''https://api.1inch.dev/swap/v6.0/1/tokens'', searchParams = []\<rparr>"
                        "OneInchTradingApp ''k''" "Str ''1''" "''0xA''" "''0xB''" "[]"]
  by (simp add: eval_simps)

section \<open>getQuote\<close>

text \<open>
  C4 (as amended). \<open>getQuote\<close> validates nothing locally: for every source, destination
  (equal or not), options, and every amount that is not \<open>null\<close>/\<open>undefined\<close>, the call
  dispatches exactly one request to the quote endpoint carrying \<open>src\<close>, \<open>dst\<close> and the
  amount's string form as given, followed by the truthy options.
\<close>

theorem C4_no_local_validation:
  assumes "\<not> nullish amount"
  shows "map req_url (dispatched_between w (world_after (getQuote src dst amount os (c, w)))) =
           [\<lparr>href = baseUrl c @ ''/quote'',
             searchParams = [(''src'', src), (''dst'', dst), (''amount'', to_string amount)]
               @ append_if ''slippage'' (opt os ''slippage'')
               @ append_if ''protocols'' (opt os ''protocols'')
               @ append_if ''fee'' (opt os ''fee'')\<rparr>]"
  using assms
  by (simp add: getQuote_def toString_def rateLimitedRequest_unfold world_after_def Let_def
           split: sum.split)

text \<open>
  C4 as stated fails: a quote for amount \<open>"0"\<close> from a token to itself with slippage 75 goes
  out to the upstream with all four parameters, and the call succeeds when the upstream
  answers 200.
\<close>

theorem C4_counterexample:
  "fst (getQuote ''0xA'' ''0xA'' (Str ''0'') [(''slippage'', Num 75)]
          (OneInchTradingApp ''k'',
           start_world 1700000000000 (always 100 (Response 200 [] (Some quote_body)))))
     = Inr \<lparr>upstream = quote_body, outputAmount = Str ''3868650000'', inputAmount = Str ''0''\<rparr>
   \<and> map (searchParams \<circ> req_url) (sent (world_after
        (getQuote ''0xA'' ''0xA'' (Str ''0'') [(''slippage'', Num 75)]
           (OneInchTradingApp ''k'',
            start_world 1700000000000 (always 100 (Response 200 [] (Some quote_body)))))))
     = [[(''src'', ''0xA''), (''dst'', ''0xA''), (''amount'', ''0''), (''slippage'', ''75'')]]"
  by (simp add: getQuote_def rateLimitedRequest_unfold settle_def quote_body_def eval_simps)

text \<open>The amended C4 at amount \<open>"0"\<close> and equal tokens.\<close>

theorem C4_witness:
  "map req_url
     (dispatched_between (start_world 1700000000000 (always 100 (Rejected ''ECONNRESET'')))
        (world_after (getQuote ''0xA'' ''0xA'' (Str ''0'') []
           (OneInchTradingApp ''k'',
            start_world 1700000000000 (always 100 (Rejected ''ECONNRESET''))))))
   = [\<lparr>href = ''https://api.1inch.dev/swap/v6.0/1/quote'',
       searchParams = [(''src'', ''0xA''), (''dst'', ''0xA''), (''amount'', ''0'')]\<rparr>]"
  using C4_no_local_validation [of "Str ''0''"
          "start_world 1700000000000 (always 100 (Rejected ''ECONNRESET''))"
          "''0xA''" "''0xA''" "[]" "OneInchTradingApp ''k''"]
  by (simp add: append_if_def opt_def OneInchTradingApp_def)

text \<open>
  C8. A \<open>getQuote\<close> call succeeds with a quote \<open>q\<close> exactly when the amount is not
  \<open>null\<close>/\<open>undefined\<close>, the upstream answered the request with a 2xx status and a JSON
  body, that body is what \<open>q\<close> carries along, the destination amount of \<open>q\<close>
  (\<open>outputAmount\<close>) is that body's \<open>dstAmount\<close> property itself, and the source amount is
  the caller's own: nothing is converted.
\<close>

theorem C8_destination_amount_verbatim:
  "fst (getQuote src dst amount os (c, w)) = Inr q \<longleftrightarrow>
     \<not> nullish amount
     \<and> (\<exists>lat st txt. net w (length (sent w)) = (lat, Response st txt (Some (upstream q)))
                      \<and> response_ok st)
     \<and> get_prop (upstream q) ''dstAmount'' = Inr (outputAmount q)
     \<and> inputAmount q = amount"
proof (cases "net w (length (sent w))")
  case (Pair lat out)
  show ?thesis
  proof (cases out)
    case (Rejected m)
    with Pair show ?thesis
      by (simp add: getQuote_def toString_def rateLimitedRequest_unfold settle_def)
  next
    case (Response st body js)
    with Pair show ?thesis
      by (cases q)
         (auto simp add: getQuote_def toString_def rateLimitedRequest_unfold settle_def Let_def
               split: option.splits sum.splits)
  qed
qed

text \<open>C8 at the upstream body \<open>{"dstAmount":"3868650000"}\<close> for one unit at 18 decimals.\<close>

theorem C8_witness:
  "fst (getQuote ''0xA'' ''0xB'' (Str ''1000000000000000000'') []
          (OneInchTradingApp ''k'',
           start_world 1700000000000 (always 100 (Response 200 [] (Some quote_body)))))
     = Inr \<lparr>upstream = Obj [(''dstAmount'', Str ''3868650000'')],
            outputAmount = Str ''3868650000'',
            inputAmount = Str ''1000000000000000000''\<rparr>"
  using C8_destination_amount_verbatim [of "''0xA''" "''0xB''" "Str ''1000000000000000000''" "[]" "OneInchTradingApp ''k''"
              "start_world 1700000000000 (always 100 (Response 200 [] (Some quote_body)))"
              "\<lparr>upstream = Obj [(''dstAmount'', Str ''3868650000'')],
            outputAmount = Str ''3868650000'',
            inputAmount = Str ''1000000000000000000''\<rparr>"]
  by (simp add: quote_body_def start_world_def always_def response_ok_def)

section \<open>buildApproval and the slippage option\<close>

text \<open>
  C7 (as amended). When no amount is supplied, the approval request carries the token address
  only, with no amount parameter; when a truthy amount is supplied, its string form is sent
  as the amount parameter.
\<close>

theorem C7_approval_amount:
  "(amount = Undefined \<longrightarrow>
      map req_url (dispatched_between w (world_after (buildApproval tokenAddress amount (c, w))))
        = [\<lparr>href = baseUrl c @ ''/approve/transaction'',
            searchParams = [(''tokenAddress'', tokenAddress)]\<rparr>])
   \<and> (truthy amount \<longrightarrow>
      map req_url (dispatched_between w (world_after (buildApproval tokenAddress amount (c, w))))
        = [\<lparr>href = baseUrl c @ ''/approve/transaction'',
            searchParams = [(''tokenAddress'', tokenAddress), (''amount'', to_string amount)]\<rparr>])"
  by (cases amount)
     (simp_all add: buildApproval_def toString_def rateLimitedRequest_unfold world_after_def)

text \<open>
  C7 as stated fails: the amount \<open>0\<close>, supplied as a number, is not passed through; the
  request goes out with the token address alone.
\<close>

theorem C7_counterexample:
  "map (searchParams \<circ> req_url) (sent (world_after
     (buildApproval ''0xT'' (Num 0)
        (OneInchTradingApp ''k'',
         start_world 1700000000000 (always 100 (Response 200 [] (Some (Obj []))))))))
   = [[(''tokenAddress'', ''0xT'')]]"
  by (simp add: buildApproval_def rateLimitedRequest_unfold eval_simps)

text \<open>The amended C7 with no amount and with the amount \<open>"1000000"\<close>.\<close>

theorem C7_witness:
  "map req_url
     (dispatched_between (start_world 1700000000000 (always 100 (Response 200 [] (Some (Obj [])))))
        (world_after (buildApproval ''0xT'' Undefined
           (OneInchTradingApp ''k'',
            start_world 1700000000000 (always 100 (Response 200 [] (Some (Obj []))))))))
     = [\<lparr>href = ''https://api.1inch.dev/swap/v6.0/1/approve/transaction'',
         searchParams = [(''tokenAddress'', ''0xT'')]\<rparr>]
   \<and> map req_url
     (dispatched_between (start_world 1700000000000 (always 100 (Response 200 [] (Some (Obj [])))))
        (world_after (buildApproval ''0xT'' (Str ''1000000'')
           (OneInchTradingApp ''k'',
            start_world 1700000000000 (always 100 (Response 200 [] (Some (Obj []))))))))
     = [\<lparr>href = ''https://api.1inch.dev/swap/v6.0/1/approve/transaction'',
         searchParams = [(''tokenAddress'', ''0xT''), (''amount'', ''1000000'')]\<rparr>]"
  using C7_approval_amount [of Undefined
          "start_world 1700000000000 (always 100 (Response 200 [] (Some (Obj []))))"
          "''0xT''" "OneInchTradingApp ''k''"]
        C7_approval_amount [of "Str ''1000000''"
          "start_world 1700000000000 (always 100 (Response 200 [] (Some (Obj []))))"
          "''0xT''" "OneInchTradingApp ''k''"]
  by (simp add: OneInchTradingApp_def)

text \<open>
  C9. An amount that is supplied but falsy (the number \<open>0\<close>, the empty string, \<open>null\<close>) makes
  \<open>buildApproval\<close> behave exactly as if no amount had been given: the request carries the
  token address only. The string \<open>"0"\<close> is truthy and is sent. In general the amount
  parameter is present exactly when the amount is truthy.
\<close>

theorem C9_falsy_amount_dropped:
  "buildApproval tokenAddress (Num 0) s = buildApproval tokenAddress Undefined s
   \<and> buildApproval tokenAddress (Str []) s = buildApproval tokenAddress Undefined s
   \<and> buildApproval tokenAddress Null s = buildApproval tokenAddress Undefined s
   \<and> map (searchParams \<circ> req_url)
        (dispatched_between w (world_after (buildApproval tokenAddress Undefined (c, w))))
        = [[(''tokenAddress'', tokenAddress)]]
   \<and> map (searchParams \<circ> req_url)
        (dispatched_between w (world_after (buildApproval tokenAddress (Str ''0'') (c, w))))
        = [[(''tokenAddress'', tokenAddress), (''amount'', ''0'')]]
   \<and> map (searchParams \<circ> req_url)
        (dispatched_between w (world_after (buildApproval tokenAddress amount (c, w))))
        = [(''tokenAddress'', tokenAddress)
            # (if truthy amount then [(''amount'', to_string amount)] else [])]"
  by (cases amount)
     (simp_all add: buildApproval_def toString_def rateLimitedRequest_unfold world_after_def)

text \<open>
  C10. With the slippage option equal to the number \<open>0\<close>, the quote request of \<open>getQuote\<close>
  has no slippage parameter and the swap request of \<open>buildSwap\<close> carries \<open>slippage=1\<close>, in
  the paced client and in the test script's client alike.
\<close>

theorem C10_zero_slippage:
  assumes "opt os ''slippage'' = Num 0" and "\<not> nullish amount" and "truthy fromAddress"
  shows "(\<exists>ps. map (searchParams \<circ> req_url)
               (dispatched_between w (world_after (getQuote src dst amount os (c, w)))) = [ps]
             \<and> map_of ps ''slippage'' = None)
       \<and> (\<exists>ps. map (searchParams \<circ> req_url)
               (dispatched_between w
                  (world_after (buildSwap src dst amount fromAddress os (c, w)))) = [ps]
             \<and> map_of ps ''slippage'' = Some ''1'')
       \<and> (\<exists>ps. map (searchParams \<circ> req_url)
               (dispatched_between w (snd (OneInchAPI_getQuote src' dst' amount' os w))) = [ps]
             \<and> map_of ps ''slippage'' = None)
       \<and> (\<exists>ps. map (searchParams \<circ> req_url)
               (dispatched_between w (snd (OneInchAPI_buildSwap src' dst' amount' from' os w)))
                 = [ps]
             \<and> map_of ps ''slippage'' = Some ''1'')"
  using assms
  by (simp add: getQuote_def buildSwap_def OneInchAPI_buildSwap_def OneInchAPI_getQuote_def
        makeRequest_def fetch_def
        toString_def rateLimitedRequest_unfold world_after_def Let_def append_if_def js_or_def
        show_int_def show_nat.simps digit_char_def
           split: sum.split prod.split)

text \<open>C10 for a swap of 1000 units requested with \<open>{slippage: 0}\<close>.\<close>

theorem C10_witness:
  "(\<exists>ps. map (searchParams \<circ> req_url)
       (dispatched_between (start_world 1700000000000 (always 100 (Response 200 [] (Some quote_body))))
          (world_after (buildSwap ''0xA'' ''0xB'' (Str ''1000'') (Str ''0xF'') [(''slippage'', Num 0)]
             (OneInchTradingApp ''k'',
              start_world 1700000000000 (always 100 (Response 200 [] (Some quote_body))))))) = [ps]
     \<and> map_of ps ''slippage'' = Some ''1'')"
  using C10_zero_slippage [of "[(''slippage'', Num 0)]" "Str ''1000''" "Str ''0xF''"
          "start_world 1700000000000 (always 100 (Response 200 [] (Some quote_body)))"
          "''0xA''" "''0xB''" "OneInchTradingApp ''k''" "Str ''0xA''" "Str ''0xB''" "Str ''1000''" "Str ''0xF''"]
  by (simp add: opt_def)

section \<open>Pacing\<close>

text \<open>
  Calls made one after the other are paced: whatever the clock on entry, a call dispatches
  no earlier than one interval after the dispatch recorded before it.
\<close>

lemma sequential_pacing: "lastRequest c + requestInterval c \<le> dispatch_time c now"
  by (simp add: dispatch_time_def pacing_wait_def Let_def)

text \<open>
  C1. Three calls entered in the same tick on a new client: the first finds the gate open
  and dispatches at once; the second and the third both read the \<open>lastRequest\<close> the first one
  wrote, both sleep one interval, and both dispatch when it has passed, at the same clock
  value. The third request leaves one interval after the first call was made, not two, and
  no time at all after the second.
\<close>

theorem C1_three_concurrent_calls:
  "snd (concurrent_calls (OneInchTradingApp ''k'') 1700000000000 3)
     = [1700000000000, 1700000001000, 1700000001000]"
  by (simp add: concurrent_calls_def enter_call_def resume_call_def pacing_wait_def
        OneInchTradingApp_def numeral_3_eq_3)

section \<open>The token and protocol caches\<close>

text \<open>What a \<open>getSupportedTokens\<close> call does when the cache does not answer it.\<close>

lemma getSupportedTokens_miss:
  assumes "\<not> (truthy (tokensCache c) \<and> clock w - tokensCacheTime c < cacheExpiry c)"
  shows "getSupportedTokens (c, w) =
     (case rateLimitedRequest \<lparr>href = baseUrl c @ ''/tokens'', searchParams = []\<rparr> (c, w) of
                 (Inl e, c1, w1) \<Rightarrow> (Inl e, c1, w1)
               | (Inr result, c1, w1) \<Rightarrow>
                   (case get_prop result ''tokens'' of
                      Inl e \<Rightarrow> (Inl e, c1, w1)
                    | Inr toks \<Rightarrow>
                        (let c2 = c1\<lparr>tokensCache := toks, tokensCacheTime := clock w\<rparr>
                         in if nullish toks then (Inl TypeError, c2, w1)
                            else (Inr toks, c2, w1))))"
  using assms by (auto simp add: getSupportedTokens_def Let_def)

lemma getSupportedTokens_miss_dispatch:
  assumes "\<not> (truthy (tokensCache c) \<and> clock w - tokensCacheTime c < cacheExpiry c)"
  shows "map req_url (dispatched_between w (world_after (getSupportedTokens (c, w))))
           = [\<lparr>href = baseUrl c @ ''/tokens'', searchParams = []\<rparr>]"
  by (simp add: getSupportedTokens_miss [OF assms] rateLimitedRequest_unfold world_after_def Let_def
           split: sum.split)

lemma getSupportedTokens_success:
  assumes "getSupportedTokens (c, w) = (Inr v, c1, w1)"
      and "\<not> (truthy (tokensCache c) \<and> clock w - tokensCacheTime c < cacheExpiry c)"
  shows "tokensCache c1 = v \<and> tokensCacheTime c1 = clock w \<and> cacheExpiry c1 = cacheExpiry c
       \<and> baseUrl c1 = baseUrl c"
  using assms(1) unfolding getSupportedTokens_miss [OF assms(2)]
  by (auto simp add: rateLimitedRequest_unfold Let_def split: sum.splits if_splits)

text \<open>
  C2 (as amended). Take a successful \<open>getSupportedTokens\<close> call that went to the network,
  entered at clock \<open>clock w\<close> and returned at clock \<open>clock w1\<close>. It issued exactly one request,
  to the tokens endpoint. A second call entered after the first call returned and less than
  \<open>cacheExpiry\<close> after the first call was entered (not after its cache write: the stored
  timestamp is the clock read on entry) returns the cached list, provided the list is truthy,
  and leaves client and world as they were: no pacing, no request. A second call entered
  after the first call returned and \<open>cacheExpiry\<close> or more after the first call was entered
  issues one request of its own.
\<close>

theorem C2_cache_window_from_call_start:
  assumes first: "getSupportedTokens (c, w) = (Inr v, c1, w1)"
      and miss: "\<not> (truthy (tokensCache c) \<and> clock w - tokensCacheTime c < cacheExpiry c)"
      and returned: "clock w1 \<le> clock w2"
  shows "map req_url (dispatched_between w w1)
           = [\<lparr>href = baseUrl c @ ''/tokens'', searchParams = []\<rparr>]
       \<and> (truthy v \<and> clock w2 - clock w < cacheExpiry c \<longrightarrow>
            getSupportedTokens (c1, w2) = (Inr v, c1, w2))
       \<and> (cacheExpiry c \<le> clock w2 - clock w \<longrightarrow>
            map req_url (dispatched_between w2 (world_after (getSupportedTokens (c1, w2))))
              = [\<lparr>href = baseUrl c @ ''/tokens'', searchParams = []\<rparr>])"
proof -
  note s = getSupportedTokens_success [OF first miss]
  have a: "map req_url (dispatched_between w w1)
           = [\<lparr>href = baseUrl c @ ''/tokens'', searchParams = []\<rparr>]"
    using getSupportedTokens_miss_dispatch [OF miss] first by (simp add: world_after_def)
  have b: "getSupportedTokens (c1, w2) = (Inr v, c1, w2)"
    if "truthy v \<and> clock w2 - clock w < cacheExpiry c"
    using that s by (simp add: getSupportedTokens_def)
  have c: "map req_url (dispatched_between w2 (world_after (getSupportedTokens (c1, w2))))
              = [\<lparr>href = baseUrl c @ ''/tokens'', searchParams = []\<rparr>]"
    if "cacheExpiry c \<le> clock w2 - clock w"
  proof -
    have "\<not> (truthy (tokensCache c1) \<and> clock w2 - tokensCacheTime c1 < cacheExpiry c1)"
      using that s by simp
    from getSupportedTokens_miss_dispatch [OF this] s show ?thesis by simp
  qed
  from a b c show ?thesis by blast
qed

text \<open>The first call of the scenario, evaluated.\<close>

lemma first_tokens_call_eq:
  "first_tokens_call =
     (Inr (Obj [(''0xa0b86991c6218b36c1d19d4a2e9eb0ce3606eb48'',
                 Obj [(''symbol'', Str ''USDC''), (''decimals'', Num 6)])]),
      (OneInchTradingApp ''k'')
         \<lparr>lastRequest := 1700000000000,
          tokensCache := Obj [(''0xa0b86991c6218b36c1d19d4a2e9eb0ce3606eb48'',
                 Obj [(''symbol'', Str ''USDC''), (''decimals'', Num 6)])],
          tokensCacheTime := 1700000000000\<rparr>,
      \<lparr>clock = 1700000002000, net = always 2000 (Response 200 [] (Some tokens_body)),
       sent = [\<lparr>req_url = \<lparr>href = ''https://api.1inch.dev/swap/v6.0/1/tokens'', searchParams = []\<rparr>,
                req_headers = [(''Authorization'', ''Bearer k''),
                 (''Accept'', ''application/json''),
                 (''Content-Type'', ''application/json'')],
                sent_at = 1700000000000\<rparr>]\<rparr>)"
  by (simp add: first_tokens_call_def getSupportedTokens_def rateLimitedRequest_unfold settle_def
        tokens_body_def response_ok_def start_world_def always_def OneInchTradingApp_def
        pacing_wait_def dispatch_time_def)

text \<open>
  C2 as stated fails: the first call is entered at 1700000000000 and writes the cache when
  the response arrives two seconds later; a second call entered 298500 ms after that write,
  inside the five-minute window counted from the write, goes to the network again, so two
  requests are issued in total.
\<close>

theorem C2_counterexample:
  "(\<exists>v. fst first_tokens_call = Inr v)
   \<and> clock (sleep 298500 (world_after first_tokens_call)) - clock (world_after first_tokens_call)
       < cacheExpiry (client_after first_tokens_call)
   \<and> length (sent (world_after
        (getSupportedTokens (client_after first_tokens_call,
                             sleep 298500 (world_after first_tokens_call))))) = 2"
  by (simp add: first_tokens_call_eq world_after_def client_after_def sleep_def
        getSupportedTokens_def rateLimitedRequest_unfold OneInchTradingApp_def
        settle_def always_def tokens_body_def response_ok_def)

text \<open>
  The amended C2 on that scenario: a second call 299999 ms after the first was entered is
  served from the cache, one at 300000 ms goes to the network.
\<close>

theorem C2_witness:
  "getSupportedTokens (client_after first_tokens_call, sleep 297999 (world_after first_tokens_call))
     = (fst first_tokens_call, client_after first_tokens_call,
        sleep 297999 (world_after first_tokens_call))
   \<and> map req_url
        (dispatched_between (sleep 298000 (world_after first_tokens_call))
           (world_after (getSupportedTokens (client_after first_tokens_call,
                                             sleep 298000 (world_after first_tokens_call)))))
       = [\<lparr>href = ''https://api.1inch.dev/swap/v6.0/1/tokens'', searchParams = []\<rparr>]"
proof -
  let ?c = "OneInchTradingApp ''k''"
  let ?w = "start_world 1700000000000 (always 2000 (Response 200 [] (Some tokens_body)))"
  let ?v = "Obj [(''0xa0b86991c6218b36c1d19d4a2e9eb0ce3606eb48'',
                 Obj [(''symbol'', Str ''USDC''), (''decimals'', Num 6)])]"
  have first: "getSupportedTokens (?c, ?w)
                 = (Inr ?v, client_after first_tokens_call, world_after first_tokens_call)"
    unfolding first_tokens_call_def [symmetric]
    by (simp add: first_tokens_call_eq client_after_def world_after_def)
  have miss: "\<not> (truthy (tokensCache ?c) \<and> clock ?w - tokensCacheTime ?c < cacheExpiry ?c)"
    by (simp add: OneInchTradingApp_def)
  have fresh: "truthy ?v \<and> clock (sleep 297999 (world_after first_tokens_call)) - clock ?w
                 < cacheExpiry ?c"
    by (simp add: first_tokens_call_eq world_after_def sleep_def start_world_def
          OneInchTradingApp_def)
  have stale: "cacheExpiry ?c \<le> clock (sleep 298000 (world_after first_tokens_call)) - clock ?w"
    by (simp add: first_tokens_call_eq world_after_def sleep_def start_world_def
          OneInchTradingApp_def)
  have later1: "clock (world_after first_tokens_call)
                  \<le> clock (sleep 297999 (world_after first_tokens_call))"
    by (simp add: sleep_def)
  have later2: "clock (world_after first_tokens_call)
                  \<le> clock (sleep 298000 (world_after first_tokens_call))"
    by (simp add: sleep_def)
  have fst_eq: "fst first_tokens_call = Inr ?v"
    by (simp add: first_tokens_call_eq)
  have base: "baseUrl ?c = ''https://api.1inch.dev/swap/v6.0/1''"
    by (simp add: OneInchTradingApp_def)
  from C2_cache_window_from_call_start
         [OF first miss later1] fresh
  have hit: "getSupportedTokens (client_after first_tokens_call,
                                 sleep 297999 (world_after first_tokens_call))
               = (Inr ?v, client_after first_tokens_call,
                  sleep 297999 (world_after first_tokens_call))"
    by blast
  from C2_cache_window_from_call_start
         [OF first miss later2] stale
  have refetch: "map req_url
        (dispatched_between (sleep 298000 (world_after first_tokens_call))
           (world_after (getSupportedTokens (client_after first_tokens_call,
                                             sleep 298000 (world_after first_tokens_call)))))
       = [\<lparr>href = baseUrl ?c @ ''/tokens'', searchParams = []\<rparr>]"
    by blast
  from hit refetch show ?thesis
    by (simp add: fst_eq base)
qed

text \<open>
  When every request fails, the endpoint loop of \<open>getSupportedProtocols\<close> tries each
  endpoint once, leaves the protocol cache alone and falls through.
\<close>

lemma try_endpoints_all_fail:
  assumes "\<forall>n. isl (settle (snd (net w n)))"
  shows "fst (try_endpoints now us (c, w)) = None
       \<and> protocolsCache (client_after (try_endpoints now us (c, w))) = protocolsCache c
       \<and> protocolsCacheTime (client_after (try_endpoints now us (c, w))) = protocolsCacheTime c
       \<and> (\<exists>rs. sent (world_after (try_endpoints now us (c, w))) = sent w @ rs
               \<and> length rs = length us)"
  using assms
proof (induction us arbitrary: c w)
  case Nil
  then show ?case by (simp add: client_after_def world_after_def)
next
  case (Cons u us)
  let ?c1 = "c\<lparr>lastRequest := dispatch_time c (clock w)\<rparr>"
  let ?w1 = "w\<lparr>clock := dispatch_time c (clock w) + int (fst (net w (length (sent w)))),
        sent := sent w @ [\<lparr>req_url = \<lparr>href = u, searchParams = []\<rparr>, req_headers = headers c,
                           sent_at = dispatch_time c (clock w)\<rparr>]\<rparr>"
  from Cons.prems obtain e where e: "settle (snd (net w (length (sent w)))) = Inl e"
    by (metis isl_def)
  have step: "try_endpoints now (u # us) (c, w) = try_endpoints now us (?c1, ?w1)"
    by (simp add: rateLimitedRequest_unfold e)
  have "\<forall>n. isl (settle (snd (net ?w1 n)))" using Cons.prems by simp
  from Cons.IH [OF this, of ?c1] show ?case
    unfolding step by auto
qed

text \<open>
  C5 (as amended). With an upstream whose every request fails: a \<open>getSupportedTokens\<close> call
  that goes to the network reports the error of its request and leaves the token cache and
  its timestamp unchanged; a \<open>getSupportedProtocols\<close> call that goes to the network tries
  its three endpoints and then returns the fixed mock protocol list as a success, storing it
  in the protocol cache with the clock read on entry.
\<close>

theorem C5_refresh_failure:
  assumes "\<forall>n. isl (settle (snd (net w n)))"
  shows "(\<not> (truthy (tokensCache c) \<and> clock w - tokensCacheTime c < cacheExpiry c) \<longrightarrow>
            fst (getSupportedTokens (c, w)) = settle (snd (net w (length (sent w))))
          \<and> tokensCache (client_after (getSupportedTokens (c, w))) = tokensCache c
          \<and> tokensCacheTime (client_after (getSupportedTokens (c, w))) = tokensCacheTime c)
       \<and> (\<not> (truthy (protocolsCache c) \<and> clock w - protocolsCacheTime c < cacheExpiry c) \<longrightarrow>
            fst (getSupportedProtocols (c, w)) = Inr mockProtocols
          \<and> protocolsCache (client_after (getSupportedProtocols (c, w))) = mockProtocols
          \<and> protocolsCacheTime (client_after (getSupportedProtocols (c, w))) = clock w
          \<and> length (dispatched_between w (world_after (getSupportedProtocols (c, w)))) = 3)"
proof -
  from assms obtain e where e: "settle (snd (net w (length (sent w)))) = Inl e"
    by (metis isl_def)
  have tokens: "fst (getSupportedTokens (c, w)) = settle (snd (net w (length (sent w))))
          \<and> tokensCache (client_after (getSupportedTokens (c, w))) = tokensCache c
          \<and> tokensCacheTime (client_after (getSupportedTokens (c, w))) = tokensCacheTime c"
    if "\<not> (truthy (tokensCache c) \<and> clock w - tokensCacheTime c < cacheExpiry c)"
    using that
    by (auto simp add: getSupportedTokens_def rateLimitedRequest_unfold e client_after_def Let_def)
  obtain c1 w1 where t: "try_endpoints (clock w) (protocol_endpoints c) (c, w) = (None, c1, w1)"
    using try_endpoints_all_fail [OF assms, of "clock w" "protocol_endpoints c" c]
    by (metis prod.collapse)
  have len: "length (dispatched_between w w1) = 3"
    using try_endpoints_all_fail [OF assms, of "clock w" "protocol_endpoints c" c] t
    by (auto simp add: world_after_def protocol_endpoints_def dispatched_between_def)
  have protocols: "fst (getSupportedProtocols (c, w)) = Inr mockProtocols
          \<and> protocolsCache (client_after (getSupportedProtocols (c, w))) = mockProtocols
          \<and> protocolsCacheTime (client_after (getSupportedProtocols (c, w))) = clock w
          \<and> length (dispatched_between w (world_after (getSupportedProtocols (c, w)))) = 3"
    if "\<not> (truthy (protocolsCache c) \<and> clock w - protocolsCacheTime c < cacheExpiry c)"
    using that t len
    by (auto simp add: getSupportedProtocols_def client_after_def world_after_def Let_def)
  from tokens protocols show ?thesis by blast
qed

text \<open>
  C5 as stated fails: with the upstream answering 500 to everything, \<open>getSupportedProtocols\<close>
  on a client holding an old protocol list returns the mock list as a success and overwrites
  the cached entry.
\<close>

theorem C5_counterexample:
  "fst (getSupportedProtocols
          (stale_client, start_world 1700000000000 (always 100 (Response 500 ''down'' None))))
     = Inr mockProtocols
   \<and> protocolsCache (client_after (getSupportedProtocols
          (stale_client, start_world 1700000000000 (always 100 (Response 500 ''down'' None)))))
     \<noteq> protocolsCache stale_client"
  by (simp add: getSupportedProtocols_def protocol_endpoints_def rateLimitedRequest_unfold
        settle_def stale_client_def mockProtocols_def response_ok_def start_world_def always_def
        OneInchTradingApp_def client_after_def)

text \<open>The amended C5 on the same client and upstream.\<close>

theorem C5_witness:
  "fst (getSupportedTokens
          (stale_client, start_world 1700000000000 (always 100 (Response 500 ''down'' None))))
     = Inl (Error ''HTTP 500: down'')
   \<and> tokensCache (client_after (getSupportedTokens
          (stale_client, start_world 1700000000000 (always 100 (Response 500 ''down'' None)))))
     = Obj [(''0xT'', Obj [(''symbol'', Str ''OLD'')])]
   \<and> fst (getSupportedProtocols
          (stale_client, start_world 1700000000000 (always 100 (Response 500 ''down'' None))))
     = Inr mockProtocols"
proof -
  let ?w = "start_world 1700000000000 (always 100 (Response 500 ''down'' None))"
  have fails: "\<forall>n. isl (settle (snd (net ?w n)))"
    by (simp add: start_world_def always_def settle_def response_ok_def)
  have stale_t: "\<not> (truthy (tokensCache stale_client)
                    \<and> clock ?w - tokensCacheTime stale_client < cacheExpiry stale_client)"
    by (simp add: stale_client_def OneInchTradingApp_def start_world_def)
  have stale_p: "\<not> (truthy (protocolsCache stale_client)
                    \<and> clock ?w - protocolsCacheTime stale_client < cacheExpiry stale_client)"
    by (simp add: stale_client_def OneInchTradingApp_def start_world_def)
  have answer: "settle (snd (net ?w (length (sent ?w)))) = Inl (Error ''HTTP 500: down'')"
    by (simp add: start_world_def always_def settle_def response_ok_def http_message_def
          show_nat.simps digit_char_def)
  have cache: "tokensCache stale_client = Obj [(''0xT'', Obj [(''symbol'', Str ''OLD'')])]"
    by (simp add: stale_client_def)
  from C5_refresh_failure [OF fails, of stale_client] stale_t stale_p
  show ?thesis by (simp add: answer cache)
qed

section \<open>The proxy routes\<close>

text \<open>The route forwards the truthy parameters of the query, in order, as strings.\<close>

lemma forward_query_filter:
  "forward_query q = map (\<lambda>(k, v). (k, to_string v)) (filter (\<lambda>(k, v). truthy v) q)"
  by (induction q) (auto simp add: forward_query_def append_if_def)

text \<open>
  C6 (as amended). Whatever the upstream does, \<open>GET /api/quote\<close> sends one upstream request
  to the quote endpoint with the query parameters whose values are truthy, in order, as
  strings (a parameter with an empty value is dropped), \<open>GET /api/tokens\<close> sends one upstream
  request with no parameters, whatever the caller's query, and both replies carry the CORS
  header for \<open>http://localhost:3000\<close>. When the upstream answers with a status outside
  200..299, whatever the body, both routes reply 500 with
  \<open>{error: <the route's label>, details: "HTTP <status>: <body>"}\<close>; when the transport
  fails, they reply 500 with the transport's message as details. When the upstream answers
  2xx with a JSON body, the quote route replies 200 with that body if it is not \<open>null\<close>, and
  the tokens route replies 200 with that body if its \<open>tokens\<close> property is neither \<open>null\<close>
  nor \<open>undefined\<close>.
\<close>

theorem C6_proxy_quote:
  "map req_url (dispatched_between w (snd (api_quote q w)))
     = [\<lparr>href = BASE_URL @ ''/quote'',
         searchParams = map (\<lambda>(k, v). (k, to_string v)) (filter (\<lambda>(k, v). truthy v) q)\<rparr>]
   \<and> map req_url (dispatched_between w (snd (api_tokens q w)))
     = [\<lparr>href = BASE_URL @ ''/tokens'', searchParams = []\<rparr>]
   \<and> allow_origin (fst (api_quote q w)) = ''http://localhost:3000''
   \<and> allow_origin (fst (api_tokens q w)) = ''http://localhost:3000''
   \<and> (net w (length (sent w)) = (lat, Response st txt js) \<and> \<not> response_ok st \<longrightarrow>
        fst (api_quote q w)
          = \<lparr>status_code = 500,
             body = Failure ''Failed to get quote'' (Error (http_message st txt)),
             allow_origin = ''http://localhost:3000'', allow_credentials = True\<rparr>
      \<and> fst (api_tokens q w)
          = \<lparr>status_code = 500,
             body = Failure ''Failed to fetch tokens'' (Error (http_message st txt)),
             allow_origin = ''http://localhost:3000'', allow_credentials = True\<rparr>)
   \<and> (net w (length (sent w)) = (lat, Rejected m) \<longrightarrow>
        fst (api_quote q w)
          = \<lparr>status_code = 500, body = Failure ''Failed to get quote'' (FetchError m),
             allow_origin = ''http://localhost:3000'', allow_credentials = True\<rparr>
      \<and> fst (api_tokens q w)
          = \<lparr>status_code = 500, body = Failure ''Failed to fetch tokens'' (FetchError m),
             allow_origin = ''http://localhost:3000'', allow_credentials = True\<rparr>)
   \<and> (net w (length (sent w)) = (lat, Response st txt (Some data)) \<and> response_ok st
        \<and> \<not> nullish data \<longrightarrow>
        fst (api_quote q w)
          = \<lparr>status_code = 200, body = Json data,
             allow_origin = ''http://localhost:3000'', allow_credentials = True\<rparr>)
   \<and> (net w (length (sent w)) = (lat, Response st txt (Some data)) \<and> response_ok st
        \<and> get_prop data ''tokens'' = Inr toks \<and> \<not> nullish toks \<longrightarrow>
        fst (api_tokens q w)
          = \<lparr>status_code = 200, body = Json data,
             allow_origin = ''http://localhost:3000'', allow_credentials = True\<rparr>)"
proof -
  obtain l out where n: "net w (length (sent w)) = (l, out)"
    by (cases "net w (length (sent w))")
  have sent_q: "map req_url (dispatched_between w (snd (api_quote q w)))
     = [\<lparr>href = BASE_URL @ ''/quote'',
         searchParams = map (\<lambda>(k, v). (k, to_string v)) (filter (\<lambda>(k, v). truthy v) q)\<rparr>]"
    by (simp add: api_quote_def fetch_def n forward_query_filter dispatched_between_def)
  have sent_t: "map req_url (dispatched_between w (snd (api_tokens q w)))
     = [\<lparr>href = BASE_URL @ ''/tokens'', searchParams = []\<rparr>]"
    by (simp add: api_tokens_def fetch_def n dispatched_between_def)
  have cors: "allow_origin (respond label r) = ''http://localhost:3000''" for label r
    by (cases r) (simp_all add: respond_def)
  have cors_q: "allow_origin (fst (api_quote q w)) = ''http://localhost:3000''"
    by (simp add: api_quote_def fetch_def n cors)
  have cors_t: "allow_origin (fst (api_tokens q w)) = ''http://localhost:3000''"
    by (simp add: api_tokens_def fetch_def n cors)
  have bad: "fst (api_quote q w)
          = \<lparr>status_code = 500,
             body = Failure ''Failed to get quote'' (Error (http_message st txt)),
             allow_origin = ''http://localhost:3000'', allow_credentials = True\<rparr>
      \<and> fst (api_tokens q w)
          = \<lparr>status_code = 500,
             body = Failure ''Failed to fetch tokens'' (Error (http_message st txt)),
             allow_origin = ''http://localhost:3000'', allow_credentials = True\<rparr>"
    if "net w (length (sent w)) = (lat, Response st txt js) \<and> \<not> response_ok st"
    using that by (simp add: api_quote_def api_tokens_def fetch_def respond_def settle_def)
  have down: "fst (api_quote q w)
          = \<lparr>status_code = 500, body = Failure ''Failed to get quote'' (FetchError m),
             allow_origin = ''http://localhost:3000'', allow_credentials = True\<rparr>
      \<and> fst (api_tokens q w)
          = \<lparr>status_code = 500, body = Failure ''Failed to fetch tokens'' (FetchError m),
             allow_origin = ''http://localhost:3000'', allow_credentials = True\<rparr>"
    if "net w (length (sent w)) = (lat, Rejected m)"
    using that by (simp add: api_quote_def api_tokens_def fetch_def respond_def settle_def)
  have good_q: "fst (api_quote q w)
          = \<lparr>status_code = 200, body = Json data,
             allow_origin = ''http://localhost:3000'', allow_credentials = True\<rparr>"
    if "net w (length (sent w)) = (lat, Response st txt (Some data)) \<and> response_ok st
        \<and> \<not> nullish data"
  proof -
    from that have "\<exists>d. get_prop data ''dstAmount'' = Inr d"
      by (cases data) simp_all
    with that show ?thesis
      by (auto simp add: api_quote_def fetch_def respond_def settle_def)
  qed
  have good_t: "fst (api_tokens q w)
          = \<lparr>status_code = 200, body = Json data,
             allow_origin = ''http://localhost:3000'', allow_credentials = True\<rparr>"
    if "net w (length (sent w)) = (lat, Response st txt (Some data)) \<and> response_ok st
        \<and> get_prop data ''tokens'' = Inr toks \<and> \<not> nullish toks"
    using that by (simp add: api_tokens_def fetch_def respond_def settle_def)
  from sent_q sent_t cors_q cors_t bad down good_q good_t show ?thesis by blast
qed

text \<open>
  C6 as stated fails: when the upstream answers 400, the caller of the proxy receives status
  500, not 400.
\<close>

theorem C6_counterexample:
  "status_code (fst (api_quote [(''src'', Str ''0xA''), (''dst'', Str ''0xA''), (''amount'', Str ''1'')]
       (start_world 1700000000000
          (always 100 (Response 400 ''src and dst are equal'' None))))) = 500"
  by (simp add: api_quote_def fetch_def respond_def settle_def response_ok_def start_world_def
        always_def)

text \<open>
  The amended C6 at four runs: a quote query with an empty \<open>protocols\<close> parameter answered
  200, a token list answered 200, a quote answered 400 with a text body, and a token list
  request whose connection is reset.
\<close>

theorem C6_witness:
  "fst (api_quote [(''src'', Str ''0xA''), (''dst'', Str ''0xB''), (''amount'', Str ''1000''),
                   (''protocols'', Str [])]
          (start_world 1700000000000 (always 100 (Response 200 [] (Some quote_body)))))
     = \<lparr>status_code = 200, body = Json quote_body,
        allow_origin = ''http://localhost:3000'', allow_credentials = True\<rparr>
   \<and> map req_url
        (dispatched_between (start_world 1700000000000 (always 100 (Response 200 [] (Some quote_body))))
           (snd (api_quote [(''src'', Str ''0xA''), (''dst'', Str ''0xB''), (''amount'', Str ''1000''),
                            (''protocols'', Str [])]
                   (start_world 1700000000000 (always 100 (Response 200 [] (Some quote_body)))))))
     = [\<lparr>href = ''https://api.1inch.dev/swap/v6.0/1/quote'',
         searchParams = [(''src'', ''0xA''), (''dst'', ''0xB''), (''amount'', ''1000'')]\<rparr>]
   \<and> fst (api_tokens [] (start_world 1700000000000 (always 100 (Response 200 [] (Some tokens_body)))))
     = \<lparr>status_code = 200, body = Json tokens_body,
        allow_origin = ''http://localhost:3000'', allow_credentials = True\<rparr>
   \<and> fst (api_quote [(''src'', Str ''0xA''), (''dst'', Str ''0xA''), (''amount'', Str ''1'')]
          (start_world 1700000000000 (always 100 (Response 400 ''src and dst are equal'' None))))
     = \<lparr>status_code = 500,
        body = Failure ''Failed to get quote'' (Error ''HTTP 400: src and dst are equal''),
        allow_origin = ''http://localhost:3000'', allow_credentials = True\<rparr>
   \<and> fst (api_tokens [] (start_world 1700000000000 (always 100 (Rejected ''ECONNRESET''))))
     = \<lparr>status_code = 500, body = Failure ''Failed to fetch tokens'' (FetchError ''ECONNRESET''),
        allow_origin = ''http://localhost:3000'', allow_credentials = True\<rparr>"
proof -
  let ?ok = "start_world 1700000000000 (always 100 (Response 200 [] (Some quote_body)))"
  let ?tok = "start_world 1700000000000 (always 100 (Response 200 [] (Some tokens_body)))"
  let ?bad = "start_world 1700000000000 (always 100 (Response 400 ''src and dst are equal'' None))"
  let ?down = "start_world 1700000000000 (always 100 (Rejected ''ECONNRESET''))"
  let ?q = "[(''src'', Str ''0xA''), (''dst'', Str ''0xB''), (''amount'', Str ''1000''),
             (''protocols'', Str [])]"
  have a: "net ?ok (length (sent ?ok)) = (100, Response 200 [] (Some quote_body))
           \<and> response_ok 200 \<and> \<not> nullish quote_body"
    by (simp add: start_world_def always_def response_ok_def quote_body_def)
  have b: "net ?tok (length (sent ?tok)) = (100, Response 200 [] (Some tokens_body))
           \<and> response_ok 200
           \<and> get_prop tokens_body ''tokens''
               = Inr (Obj [(''0xa0b86991c6218b36c1d19d4a2e9eb0ce3606eb48'',
                            Obj [(''symbol'', Str ''USDC''), (''decimals'', Num 6)])])
           \<and> \<not> nullish (Obj [(''0xa0b86991c6218b36c1d19d4a2e9eb0ce3606eb48'',
                            Obj [(''symbol'', Str ''USDC''), (''decimals'', Num 6)])])"
    by (simp add: start_world_def always_def response_ok_def tokens_body_def)
  have c: "net ?bad (length (sent ?bad)) = (100, Response 400 ''src and dst are equal'' None)
           \<and> \<not> response_ok 400"
    by (simp add: start_world_def always_def response_ok_def)
  have d: "net ?down (length (sent ?down)) = (100, Rejected ''ECONNRESET'')"
    by (simp add: start_world_def always_def)
  have msg: "http_message 400 ''src and dst are equal'' = ''HTTP 400: src and dst are equal''"
    by (simp add: http_message_def show_nat.simps digit_char_def)
  have fwd: "map (\<lambda>(k, v). (k, to_string v)) (filter (\<lambda>(k, v). truthy v) ?q)
               = [(''src'', ''0xA''), (''dst'', ''0xB''), (''amount'', ''1000'')]"
    by simp
  from C6_proxy_quote [of ?ok ?q 100 200 "[]" _ _ quote_body] a
  have r1: "fst (api_quote ?q ?ok)
     = \<lparr>status_code = 200, body = Json quote_body,
        allow_origin = ''http://localhost:3000'', allow_credentials = True\<rparr>
     \<and> map req_url (dispatched_between ?ok (snd (api_quote ?q ?ok)))
     = [\<lparr>href = ''https://api.1inch.dev/swap/v6.0/1/quote'',
         searchParams = [(''src'', ''0xA''), (''dst'', ''0xB''), (''amount'', ''1000'')]\<rparr>]"
    by (simp add: fwd BASE_URL_def)
  from C6_proxy_quote [of ?tok "[]" 100 200 "[]" _ _ tokens_body
              "Obj [(''0xa0b86991c6218b36c1d19d4a2e9eb0ce3606eb48'',
                            Obj [(''symbol'', Str ''USDC''), (''decimals'', Num 6)])]"] b
  have r2: "fst (api_tokens [] ?tok)
     = \<lparr>status_code = 200, body = Json tokens_body,
        allow_origin = ''http://localhost:3000'', allow_credentials = True\<rparr>"
    by simp
  from C6_proxy_quote [of ?bad "[(''src'', Str ''0xA''), (''dst'', Str ''0xA''), (''amount'', Str ''1'')]"
              100 400 "''src and dst are equal''" None] c
  have r3: "fst (api_quote [(''src'', Str ''0xA''), (''dst'', Str ''0xA''), (''amount'', Str ''1'')] ?bad)
     = \<lparr>status_code = 500,
        body = Failure ''Failed to get quote'' (Error ''HTTP 400: src and dst are equal''),
        allow_origin = ''http://localhost:3000'', allow_credentials = True\<rparr>"
    by (simp add: msg)
  from C6_proxy_quote [of ?down "[]" 100 _ _ _ "''ECONNRESET''"] d
  have r4: "fst (api_tokens [] ?down)
     = \<lparr>status_code = 500, body = Failure ''Failed to fetch tokens'' (FetchError ''ECONNRESET''),
        allow_origin = ''http://localhost:3000'', allow_credentials = True\<rparr>"
    by simp
  from r1 r2 r3 r4 show ?thesis by simp
qed

end
